theory Spec2Isabelle
  imports Main
begin

section \<open>Values, errors and observations\<close>

text \<open>
  The JavaScript values that the request pipeline builds or passes on: \<open>undefined\<close>,
  numbers (only integers occur), strings and object literals (a list of properties).
\<close>

datatype jsval =
    JUndefined
  | JNum int
  | JStr string
  | JObj "(string \<times> jsval) list"

text \<open>
  The rejection codes. \<open>TOO_MANY_REQUESTS\<close> and \<open>PERMISSION_DENIED\<close> are members of
  \<open>ErrorCodes\<close> of the protocol package, \<open>InvalidRequest\<close> and \<open>InternalError\<close> of the
  JSON-RPC package's \<open>ErrorCodes\<close>; their numeric values are not part of the sources, so
  they stay symbolic. \<open>OtherCode\<close> is any other code a handler may use.
\<close>

datatype ErrorCode =
    TOO_MANY_REQUESTS
  | PERMISSION_DENIED
  | InvalidRequest
  | InternalError
  | OtherCode int

text \<open>
  What a \<open>throw\<close> carries: a \<open>ResponseError(code, message, data)\<close>, or any other
  \<open>Error\<close> (with its message).
\<close>

datatype thrown =
    ResponseError ErrorCode string jsval
  | PlainError string

text \<open>The levels of \<open>log.debug\<close>, \<open>log.info\<close>, \<open>log.warn\<close> and \<open>log.error\<close>.\<close>

datatype level = debug | info | warn | error

section \<open>The rate limiter (\<open>auth/rate-limiter.ts\<close>)\<close>

datatype MethodType = One | Two | Three

text \<open>\<open>UserRateLimiter.methodTypeMappingObject\<close>: the object literal, entry by entry.\<close>

definition methodTypeMappingObject :: "(string \<times> MethodType) list" where
  "methodTypeMappingObject =
    [(''getLoggedInUser'', One),
     (''getTerms'', One),
     (''updateLoggedInUser'', One),
     (''getAuthProviders'', One),
     (''getOwnAuthProviders'', One),
     (''updateOwnAuthProvider'', One),
     (''deleteOwnAuthProvider'', One),
     (''getBranding'', One),
     (''getConfiguration'', One),
     (''getToken'', One),
     (''getPortAuthenticationToken'', One),
     (''deleteAccount'', One),
     (''getClientRegion'', One),
     (''hasPermission'', One),
     (''getWorkspaces'', One),
     (''getWorkspaceOwner'', One),
     (''getWorkspaceUsers'', One),
     (''getFeaturedRepositories'', One),
     (''getWorkspace'', One),
     (''isWorkspaceOwner'', One),
     (''createWorkspace'', One),
     (''startWorkspace'', One),
     (''stopWorkspace'', One),
     (''deleteWorkspace'', One),
     (''setWorkspaceDescription'', One),
     (''controlAdmission'', One),
     (''updateWorkspaceUserPin'', One),
     (''sendHeartBeat'', One),
     (''watchWorkspaceImageBuildLogs'', One),
     (''watchHeadlessWorkspaceLogs'', One),
     (''isPrebuildDone'', One),
     (''setWorkspaceTimeout'', One),
     (''getWorkspaceTimeout'', One),
     (''getOpenPorts'', One),
     (''openPort'', One),
     (''closePort'', One),
     (''getUserMessages'', One),
     (''updateUserMessages'', One),
     (''getUserStorageResource'', One),
     (''updateUserStorageResource'', One),
     (''getEnvVars'', One),
     (''setEnvVar'', One),
     (''deleteEnvVar'', One),
     (''getContentBlobUploadUrl'', One),
     (''getContentBlobDownloadUrl'', One),
     (''getGitpodTokens'', One),
     (''generateNewGitpodToken'', One),
     (''deleteGitpodToken'', One),
     (''sendFeedback'', One),
     (''registerGithubApp'', One),
     (''takeSnapshot'', One),
     (''getSnapshots'', One),
     (''storeLayout'', One),
     (''getLayout'', One),
     (''preparePluginUpload'', One),
     (''resolvePlugins'', One),
     (''installUserPlugins'', One),
     (''uninstallUserPlugin'', One),
     (''adminGetUsers'', One),
     (''adminGetUser'', One),
     (''adminBlockUser'', One),
     (''adminDeleteUser'', One),
     (''adminModifyRoleOrPermission'', One),
     (''adminModifyPermanentWorkspaceFeatureFlag'', One),
     (''adminGetWorkspaces'', One),
     (''adminGetWorkspace'', One),
     (''adminForceStopWorkspace'', One),
     (''adminSetLicense'', One),
     (''validateLicense'', One),
     (''getLicenseInfo'', One),
     (''licenseIncludesFeature'', One)]"

text \<open>
  \<open>methodTypeMapping\<close>: \<open>new Map(Object.entries(...))\<close>. \<open>Map.get\<close> of a key that is
  not an entry is \<open>undefined\<close>, here \<open>None\<close>; the names of the literal are pairwise
  distinct, so the first entry of a name is the only one.
\<close>

definition methodTypeMapping :: "string \<rightharpoonup> MethodType" where
  "methodTypeMapping = map_of methodTypeMappingObject"

text \<open>
  \<open>isGroupType\<close>: \<open>this.methodTypeMapping().get(method) == type\<close>. The members of the
  enum are the numbers 0, 1 and 2, and \<open>undefined == n\<close> is false for a number \<open>n\<close>.
\<close>

definition isGroupType :: "string \<Rightarrow> MethodType \<Rightarrow> bool" where
  "isGroupType method type = (methodTypeMapping method = Some type)"

definition isGroupOneMethod :: "string \<Rightarrow> bool" where
  "isGroupOneMethod method = isGroupType method One"

definition isGroupTwoMethod :: "string \<Rightarrow> bool" where
  "isGroupTwoMethod method = isGroupType method Two"

definition isGroupThreeMethod :: "string \<Rightarrow> bool" where
  "isGroupThreeMethod method = isGroupType method Three"

subsection \<open>The fixed-window counter\<close>

text \<open>
  \<open>RateLimiterRes\<close>, what a \<open>consume\<close> resolves or rejects with: the milliseconds to
  the next refill and the points left.
\<close>

record RateLimiterRes =
  msBeforeNext :: nat
  remainingPoints :: nat

text \<open>A counter of one key: the points left in the window and the time it refills (ms).\<close>

record window =
  remaining :: nat
  resetAt :: nat

text \<open>
  A \<open>RateLimiterMemory\<close>: its options (\<open>points\<close> per window, \<open>duration\<close> of the window
  in seconds) and its own store of counters by key.
\<close>

record RateLimiterMemory =
  points :: nat
  duration :: nat
  storage :: "string \<rightharpoonup> window"

text \<open>
  How the promise of a \<open>consume\<close> settles: resolved, rejected with a \<open>RateLimiterRes\<close>
  (the quota is used up), or rejected with an \<open>Error\<close>.
\<close>

datatype consumed =
    Resolves RateLimiterRes
  | RejectsRes RateLimiterRes
  | RejectsError thrown

text \<open>
  Modelled from the spec: \<open>RateLimiterMemory.consume\<close> of the package
  \<open>rate-limiter-flexible\<close>, which the sources import and do not contain. Each key owns
  a fixed-window counter of \<open>points\<close> per \<open>duration\<close> seconds that refills at the
  window boundary; a \<open>consume\<close> takes one point; when no point is left it rejects with
  the time to the next refill. \<open>now\<close> is the clock, in milliseconds.
\<close>

definition consume_memory ::
  "RateLimiterMemory \<Rightarrow> nat \<Rightarrow> string \<Rightarrow> consumed \<times> RateLimiterMemory" where
  "consume_memory rl now key =
    (let fresh = \<lparr>remaining = points rl, resetAt = now + duration rl * 1000\<rparr>;
         w = (case storage rl key of
                None \<Rightarrow> fresh
              | Some w \<Rightarrow> if resetAt w \<le> now then fresh else w)
     in if remaining w = 0
        then (RejectsRes \<lparr>msBeforeNext = resetAt w - now, remainingPoints = 0\<rparr>, rl)
        else (Resolves \<lparr>msBeforeNext = resetAt w - now, remainingPoints = remaining w - 1\<rparr>,
              rl\<lparr>storage := (storage rl)(key \<mapsto> w\<lparr>remaining := remaining w - 1\<rparr>)\<rparr>))"

subsection \<open>Configuration\<close>

text \<open>
  The environment variables the limiters read. A field is the number that \<open>Number(...)\<close>
  makes of the variable, \<open>None\<close> when the variable is unset or not a number (\<open>NaN\<close>);
  negative and fractional settings are not modelled.
\<close>

record env =
  RATE_LIMITER_ANON_POINTS :: "nat option"
  RATE_LIMITER_ANON_DURATION :: "nat option"
  RATE_LIMITER_ONE_POINTS :: "nat option"
  RATE_LIMITER_ONE_DURATION :: "nat option"
  RATE_LIMITER_TWO_POINTS :: "nat option"
  RATE_LIMITER_TWO_DURATION :: "nat option"
  RATE_LIMITER_THREE_POINTS :: "nat option"
  RATE_LIMITER_THREE_DURATION :: "nat option"

text \<open>\<open>Number(v) || d\<close>: \<open>NaN\<close> and 0 are falsy.\<close>

definition number_or :: "nat option \<Rightarrow> nat \<Rightarrow> nat" where
  "number_or v d = (case v of None \<Rightarrow> d | Some n \<Rightarrow> if n = 0 then d else n)"

text \<open>No variable set: every limiter takes its default.\<close>

definition default_env :: env where
  "default_env =
    \<lparr>RATE_LIMITER_ANON_POINTS = None, RATE_LIMITER_ANON_DURATION = None,
     RATE_LIMITER_ONE_POINTS = None, RATE_LIMITER_ONE_DURATION = None,
     RATE_LIMITER_TWO_POINTS = None, RATE_LIMITER_TWO_DURATION = None,
     RATE_LIMITER_THREE_POINTS = None, RATE_LIMITER_THREE_DURATION = None\<rparr>"

subsection \<open>\<open>AnonymRateLimiter\<close>\<close>

text \<open>The constructor of \<open>AnonymRateLimiter\<close>; its \<open>user\<close> field is the constant below.\<close>

definition anonym_user :: string where
  "anonym_user = ''(anonym)''"

definition new_AnonymRateLimiter :: "env \<Rightarrow> RateLimiterMemory" where
  "new_AnonymRateLimiter e =
    \<lparr>points = number_or (RATE_LIMITER_ANON_POINTS e) 10,
     duration = number_or (RATE_LIMITER_ANON_DURATION e) 60,
     storage = Map.empty\<rparr>"

text \<open>\<open>AnonymRateLimiter.consume(method)\<close>: \<open>this.rateLimiter.consume(method)\<close>.\<close>

definition consume_anonym ::
  "RateLimiterMemory \<Rightarrow> nat \<Rightarrow> string \<Rightarrow> consumed \<times> RateLimiterMemory" where
  "consume_anonym rl now method = consume_memory rl now method"

subsection \<open>\<open>UserRateLimiter\<close>\<close>

record UserRateLimiter =
  user :: string
  rateLimiterOne :: RateLimiterMemory
  rateLimiterTwo :: RateLimiterMemory
  rateLimiterThree :: RateLimiterMemory

text \<open>The constructor: its \<open>log.debug\<close> line and the three limiters.\<close>

definition new_UserRateLimiter :: "env \<Rightarrow> string \<Rightarrow> (level \<times> string) list \<times> UserRateLimiter" where
  "new_UserRateLimiter e u =
    ([(debug, ''Create GitpodRateLimiter for user '' @ u)],
     \<lparr>user = u,
      rateLimiterOne =
        \<lparr>points = number_or (RATE_LIMITER_ONE_POINTS e) 5,
         duration = number_or (RATE_LIMITER_ONE_DURATION e) 60,
         storage = Map.empty\<rparr>,
      rateLimiterTwo =
        \<lparr>points = number_or (RATE_LIMITER_TWO_POINTS e) 15,
         duration = number_or (RATE_LIMITER_TWO_DURATION e) 60,
         storage = Map.empty\<rparr>,
      rateLimiterThree =
        \<lparr>points = number_or (RATE_LIMITER_THREE_POINTS e) 10,
         duration = number_or (RATE_LIMITER_THREE_DURATION e) 60,
         storage = Map.empty\<rparr>\<rparr>)"

text \<open>
  \<open>UserRateLimiter.consume(method)\<close>: the result of the limiter it picks, the lines it
  logs, and the limiter object after the call.
\<close>

definition consume_user ::
  "UserRateLimiter \<Rightarrow> nat \<Rightarrow> string \<Rightarrow> consumed \<times> (level \<times> string) list \<times> UserRateLimiter" where
  "consume_user rl now method =
    (if isGroupOneMethod method then
       (let (r, l) = consume_memory (rateLimiterOne rl) now (user rl)
        in (r, [], rl\<lparr>rateLimiterOne := l\<rparr>))
     else if isGroupTwoMethod method then
       (let (r, l) = consume_memory (rateLimiterTwo rl) now (user rl)
        in (r, [], rl\<lparr>rateLimiterTwo := l\<rparr>))
     else if isGroupThreeMethod method then
       (let (r, l) = consume_memory (rateLimiterThree rl) now (user rl)
        in (r, [], rl\<lparr>rateLimiterThree := l\<rparr>))
     else
       (let (r, l) = consume_memory (rateLimiterThree rl) now (user rl)
        in (r,
            [(warn, ''method '' @ method @ '' is not configured for a rate limiter, using fallback'')],
            rl\<lparr>rateLimiterThree := l\<rparr>)))"

section \<open>Shared state\<close>

text \<open>
  A \<open>GitpodServerImpl\<close> after \<open>initialize\<close>: the handler object of one connection. Its
  class is not part of the sources; the fields are what \<open>createProxyTarget\<close> gives it
  and the \<open>uuid\<close> that \<open>removeServer\<close> compares.
\<close>

datatype ResourceAccessGuard =
    ExplicitGuard string
  | OwnerResourceGuard string
  | SharedWorkspaceAccessGuard
  | CompositeResourceAccessGuard "ResourceAccessGuard list"
  | DenyAll

record GitpodServerImpl =
  uuid :: string
  clientRegion :: "string option"
  server_user :: "string option"
  resourceGuard :: ResourceAccessGuard

text \<open>The two events of the manager's emitter; a listener is known by its identity.\<close>

datatype event = EVENT_CONNECTION_CREATED | EVENT_CONNECTION_CLOSED

type_synonym listener = nat

text \<open>
  Everything the modelled code reads or writes: the three counters of
  \<open>prometheusMetrics.ts\<close> (\<open>apiCallCounter\<close> by method label), the lines logged, the
  environment, the static fields \<open>AnonymRateLimiter.instance_\<close> (\<open>anonym_instance\<close>) and
  \<open>UserRateLimiter.instances\<close>, the manager's \<open>servers\<close> array and the listeners of
  its emitter by event, and what the collaborators saw: the listener calls made by
  \<open>emit\<close>, the handlers disposed, and the handler methods invoked (by server uuid).
\<close>

record system =
  apiConnectionCounter :: nat
  apiConnectionClosedCounter :: nat
  apiCallCounter :: "string \<Rightarrow> nat"
  logged :: "(level \<times> string) list"
  process_env :: env
  anonym_instance :: "RateLimiterMemory option"
  instances :: "string \<rightharpoonup> UserRateLimiter"
  servers :: "GitpodServerImpl list"
  listeners :: "event \<Rightarrow> listener list"
  notified :: "(listener \<times> event \<times> string) list"
  disposed :: "string list"
  invoked :: "(string \<times> string \<times> jsval list) list"

text \<open>The state of a fresh process with environment \<open>e\<close>.\<close>

definition init_system :: "env \<Rightarrow> system" where
  "init_system e =
    \<lparr>apiConnectionCounter = 0, apiConnectionClosedCounter = 0, apiCallCounter = (\<lambda>_. 0),
     logged = [], process_env = e, anonym_instance = None, instances = Map.empty,
     servers = [], listeners = (\<lambda>_. []), notified = [], disposed = [], invoked = []\<rparr>"

definition log_line :: "level \<Rightarrow> string \<Rightarrow> system \<Rightarrow> system" where
  "log_line lv msg st = st\<lparr>logged := logged st @ [(lv, msg)]\<rparr>"

subsection \<open>Metrics (\<open>prometheusMetrics.ts\<close>)\<close>

definition increaseApiConnectionCounter :: "system \<Rightarrow> system" where
  "increaseApiConnectionCounter st = st\<lparr>apiConnectionCounter := apiConnectionCounter st + 1\<rparr>"

definition increaseApiConnectionClosedCounter :: "system \<Rightarrow> system" where
  "increaseApiConnectionClosedCounter st =
    st\<lparr>apiConnectionClosedCounter := apiConnectionClosedCounter st + 1\<rparr>"

definition increaseApiCallCounter :: "string \<Rightarrow> system \<Rightarrow> system" where
  "increaseApiCallCounter method st =
    st\<lparr>apiCallCounter := (apiCallCounter st)(method := apiCallCounter st method + 1)\<rparr>"

subsection \<open>The limiter instances\<close>

text \<open>
  A \<open>RateLimiter\<close> held by a connection is a reference to a shared object: the one
  anonymous instance, or the instance of a user in \<open>UserRateLimiter.instances\<close>.
\<close>

datatype RateLimiter = AnonymRef | UserRef string

text \<open>The \<open>user\<close> field of the object behind a reference.\<close>

fun rateLimiter_user :: "RateLimiter \<Rightarrow> string" where
  "rateLimiter_user AnonymRef = anonym_user"
| "rateLimiter_user (UserRef u) = u"

text \<open>\<open>AnonymRateLimiter.instance()\<close>: made on first use, the same object ever after.\<close>

definition AnonymRateLimiter_instance :: "system \<Rightarrow> RateLimiter \<times> system" where
  "AnonymRateLimiter_instance st =
    (case anonym_instance st of
       None \<Rightarrow> (AnonymRef, st\<lparr>anonym_instance := Some (new_AnonymRateLimiter (process_env st))\<rparr>)
     | Some _ \<Rightarrow> (AnonymRef, st))"

text \<open>\<open>UserRateLimiter.instance(user)\<close>: the cached object, or a new one that is cached.\<close>

definition UserRateLimiter_instance :: "string \<Rightarrow> system \<Rightarrow> RateLimiter \<times> system" where
  "UserRateLimiter_instance u st =
    (case instances st u of
       Some _ \<Rightarrow> (UserRef u, st)
     | None \<Rightarrow>
         (let (ls, rl) = new_UserRateLimiter (process_env st) u
          in (UserRef u, st\<lparr>logged := logged st @ ls, instances := (instances st)(u \<mapsto> rl)\<rparr>)))"

text \<open>
  \<open>rateLimiter.consume(method)\<close> through a reference: the call on the object, which is
  written back. A reference is only ever made by the two \<open>instance\<close> functions, which
  store the object first; for a reference to nothing the call fails with a
  \<open>TypeError\<close>, as a call on \<open>undefined\<close> does.
\<close>

definition consume :: "RateLimiter \<Rightarrow> nat \<Rightarrow> string \<Rightarrow> system \<Rightarrow> consumed \<times> system" where
  "consume ref now method st =
    (case ref of
       AnonymRef \<Rightarrow>
         (case anonym_instance st of
            None \<Rightarrow> (RejectsError (PlainError ''TypeError''), st)
          | Some rl \<Rightarrow>
              (let (r, rl') = consume_anonym rl now method
               in (r, st\<lparr>anonym_instance := Some rl'\<rparr>)))
     | UserRef u \<Rightarrow>
         (case instances st u of
            None \<Rightarrow> (RejectsError (PlainError ''TypeError''), st)
          | Some rl \<Rightarrow>
              (let (r, ls, rl') = consume_user rl now method
               in (r, st\<lparr>logged := logged st @ ls, instances := (instances st)(u \<mapsto> rl')\<rparr>))))"

section \<open>The request pipeline (\<open>GitpodJsonRpcProxyFactory\<close>)\<close>

subsection \<open>The \<open>Retry-After\<close> value\<close>

text \<open>\<open>String(n)\<close> of a natural number: its decimal digits.\<close>

fun String_of_nat :: "nat \<Rightarrow> string" where
  "String_of_nat n =
    (if n < 10 then [''0123456789'' ! n]
     else String_of_nat (n div 10) @ [''0123456789'' ! (n mod 10)])"

text \<open>
  \<open>Math.round(ms / 1000)\<close> for a whole number of milliseconds: to the nearest whole
  number, a half going up.
\<close>

definition Math_round_div_1000 :: "nat \<Rightarrow> nat" where
  "Math_round_div_1000 ms = (ms + 500) div 1000"

text \<open>JavaScript's truthiness and \<open>a || b\<close>: \<open>a\<close> when it is truthy, else \<open>b\<close>.\<close>

fun truthy :: "jsval \<Rightarrow> bool" where
  "truthy JUndefined = False"
| "truthy (JNum n) = (n \<noteq> 0)"
| "truthy (JStr s) = (s \<noteq> [])"
| "truthy (JObj _) = True"

definition js_or :: "jsval \<Rightarrow> jsval \<Rightarrow> jsval" where
  "js_or a b = (if truthy a then a else b)"

text \<open>\<open>String(Math.round(rlRejected.msBeforeNext / 1000)) || 1\<close>.\<close>

definition retry_after :: "nat \<Rightarrow> jsval" where
  "retry_after ms = js_or (JStr (String_of_nat (Math_round_div_1000 ms))) (JNum 1)"

subsection \<open>\<open>onRequest\<close> and \<open>onNotification\<close>\<close>

text \<open>
  A proxy factory: the function guard (\<open>canAccess\<close>), the limiter and the target of one
  connection.
\<close>

record ProxyFactory =
  accessGuard :: "string \<Rightarrow> bool"
  rateLimiter :: RateLimiter
  target :: GitpodServerImpl

text \<open>How a call ends: with a value, or with something thrown.\<close>

datatype outcome = Returns jsval | Throws thrown

text \<open>
  \<open>onRequest(method, ...args)\<close>. The handler \<open>this.target[method](...args)\<close> is not part
  of the sources: \<open>handler\<close> gives how that call ends. The texts logged leave out the
  renderings of objects (the limiter's result, the error and its code, the arguments).
\<close>

definition onRequest ::
  "ProxyFactory \<Rightarrow> (string \<Rightarrow> jsval list \<Rightarrow> outcome) \<Rightarrow> nat \<Rightarrow> string \<Rightarrow> jsval list \<Rightarrow> system
    \<Rightarrow> outcome \<times> system" where
  "onRequest f handler now method args st0 =
    (let st1 = increaseApiCallCounter method st0;
         (r, st2) = consume (rateLimiter f) now method st1
     in case r of
          RejectsError e \<Rightarrow>
            (Throws e, log_line error ''Unexpected error in the rate limiter'' st2)
        | RejectsRes res \<Rightarrow>
            (Throws (ResponseError TOO_MANY_REQUESTS ''too many requests''
                      (JObj [(''Retry-After'', retry_after (msBeforeNext res))])),
             log_line warn
               (''Rate limiter prevents access to method '' @ method @ '' of user ''
                 @ rateLimiter_user (rateLimiter f) @ '' due to too many requests.'') st2)
        | Resolves res \<Rightarrow>
            (let st3 = log_line debug
                         (''Rate limiter '' @ rateLimiter_user (rateLimiter f) @ ''/'' @ method
                           @ '' result: '') st2
             in if \<not> accessGuard f method then
                  (Throws (ResponseError PERMISSION_DENIED ''not allowed'' JUndefined),
                   log_line error (''Request '' @ method @ '' is not allowed'') st3)
                else
                  (let st4 = st3\<lparr>invoked := invoked st3 @ [(uuid (target f), method, args)]\<rparr>
                   in case handler method args of
                        Returns v \<Rightarrow> (Returns v, st4)
                      | Throws (ResponseError c m d) \<Rightarrow>
                          (Throws (ResponseError c m d),
                           log_line info (''Request '' @ method @ '' unsuccessful: '' @ m) st4)
                      | Throws (PlainError m) \<Rightarrow>
                          (Throws (PlainError m),
                           log_line error
                             (''Request '' @ method @ '' failed with internal server error'') st4))))"

text \<open>\<open>onNotification(method, ...args)\<close>: it throws, and does nothing else.\<close>

definition onNotification ::
  "ProxyFactory \<Rightarrow> string \<Rightarrow> jsval list \<Rightarrow> system \<Rightarrow> outcome \<times> system" where
  "onNotification f method args st =
    (Throws (ResponseError InvalidRequest ''notifications are not supported'' JUndefined), st)"

section \<open>The connection manager (\<open>WebsocketConnectionManager\<close>)\<close>

text \<open>
  What the manager reads of the request of a new connection: the id of its user (if
  any), the guards it may carry, and the client-region header.
\<close>

record request =
  req_user :: "string option"
  req_functionGuard :: "(string \<Rightarrow> bool) option"
  req_resourceGuard :: "ResourceAccessGuard option"
  req_clientRegion :: "string option"

text \<open>
  Modelled from the spec: \<open>AllAccessFunctionGuard\<close> of \<open>auth/function-access\<close>, which is
  not part of the sources: with no guard supplied, everything is granted.
\<close>

definition AllAccessFunctionGuard :: "string \<Rightarrow> bool" where
  "AllAccessFunctionGuard method = True"

definition createAccessGuard :: "request \<Rightarrow> (string \<Rightarrow> bool)" where
  "createAccessGuard req =
    (case req_functionGuard req of Some g \<Rightarrow> g | None \<Rightarrow> AllAccessFunctionGuard)"

definition createRateLimiter :: "request \<Rightarrow> system \<Rightarrow> RateLimiter \<times> system" where
  "createRateLimiter req st =
    (case req_user req of
       Some u \<Rightarrow> UserRateLimiter_instance u st
     | None \<Rightarrow> AnonymRateLimiter_instance st)"

text \<open>\<open>events.emit(ev, server)\<close>: every listener of the event is called, in order.\<close>

definition emit :: "event \<Rightarrow> GitpodServerImpl \<Rightarrow> system \<Rightarrow> system" where
  "emit ev server st =
    st\<lparr>notified := notified st @ map (\<lambda>l. (l, ev, uuid server)) (listeners st ev)\<rparr>"

text \<open>\<open>Array.findIndex\<close>: the first index where the predicate holds; \<open>None\<close> is -1.\<close>

fun findIndex :: "('a \<Rightarrow> bool) \<Rightarrow> 'a list \<Rightarrow> nat option" where
  "findIndex P [] = None"
| "findIndex P (x # xs) =
    (if P x then Some 0 else (case findIndex P xs of None \<Rightarrow> None | Some i \<Rightarrow> Some (Suc i)))"

text \<open>
  \<open>removeServer\<close>. \<open>splice(index)\<close> with the start alone deletes every element from
  \<open>index\<close> to the end of the array.
\<close>

definition removeServer :: "GitpodServerImpl \<Rightarrow> system \<Rightarrow> system" where
  "removeServer oddServer st =
    (case findIndex (\<lambda>s. uuid s = uuid oddServer) (servers st) of
       None \<Rightarrow> st
     | Some index \<Rightarrow> st\<lparr>servers := take index (servers st)\<rparr>)"

definition currentConnectionCount :: "system \<Rightarrow> nat" where
  "currentConnectionCount st = length (servers st)"

text \<open>
  \<open>createProxyTarget\<close>. \<open>fresh\<close> is the uuid of the object that \<open>serverFactory()\<close>
  makes. The callback given to \<open>onDidCloseConnection\<close> is \<open>close_callback\<close> below; the
  session touch of the returned proxy is left out.
\<close>

definition createProxyTarget :: "request \<Rightarrow> string \<Rightarrow> system \<Rightarrow> GitpodServerImpl \<times> system" where
  "createProxyTarget req fresh st =
    (let guard =
           (case req_resourceGuard req of
              Some explicitGuard \<Rightarrow> explicitGuard
            | None \<Rightarrow>
                (case req_user req of
                   Some u \<Rightarrow>
                     CompositeResourceAccessGuard [OwnerResourceGuard u, SharedWorkspaceAccessGuard]
                 | None \<Rightarrow> DenyAll));
         gitpodServer =
           \<lparr>uuid = fresh, clientRegion = req_clientRegion req, server_user = req_user req,
            resourceGuard = guard\<rparr>;
         st1 = st\<lparr>servers := servers st @ [gitpodServer]\<rparr>
     in (gitpodServer, emit EVENT_CONNECTION_CREATED gitpodServer st1))"

text \<open>
  The close callback of a connection, run at each close signal:
  \<open>gitpodServer.dispose()\<close>, \<open>removeServer\<close>, and the closed event.
\<close>

definition close_callback :: "GitpodServerImpl \<Rightarrow> system \<Rightarrow> system" where
  "close_callback gitpodServer st =
    (let st1 = st\<lparr>disposed := disposed st @ [uuid gitpodServer]\<rparr>;
         st2 = removeServer gitpodServer st1
     in emit EVENT_CONNECTION_CLOSED gitpodServer st2)"

text \<open>\<open>onConnectionCreated(l)\<close> and \<open>onConnectionClosed(l)\<close>: an observer subscribes.\<close>

definition onConnectionCreated :: "listener \<Rightarrow> system \<Rightarrow> system" where
  "onConnectionCreated l st =
    (let st1 = increaseApiConnectionCounter st
     in st1\<lparr>listeners := (listeners st1)
              (EVENT_CONNECTION_CREATED := listeners st1 EVENT_CONNECTION_CREATED @ [l])\<rparr>)"

definition onConnectionClosed :: "listener \<Rightarrow> system \<Rightarrow> system" where
  "onConnectionClosed l st =
    (let st1 = increaseApiConnectionClosedCounter st
     in st1\<lparr>listeners := (listeners st1)
              (EVENT_CONNECTION_CLOSED := listeners st1 EVENT_CONNECTION_CLOSED @ [l])\<rparr>)"

text \<open>
  The disposer that a subscription returns: \<open>events.off(ev, l)\<close>, which removes the
  most recently added entry of \<open>l\<close>.
\<close>

definition dispose_subscription :: "event \<Rightarrow> listener \<Rightarrow> system \<Rightarrow> system" where
  "dispose_subscription ev l st =
    st\<lparr>listeners := (listeners st)(ev := rev (remove1 l (rev (listeners st ev))))\<rparr>"

text \<open>
  \<open>GitpodJsonRpcConnectionHandler.onConnection\<close>: the guard and the limiter are made
  first (they are the constructor's arguments), then the target.
\<close>

definition onConnection :: "request \<Rightarrow> string \<Rightarrow> system \<Rightarrow> ProxyFactory \<times> system" where
  "onConnection req fresh st =
    (let guard = createAccessGuard req;
         (limiter, st1) = createRateLimiter req st;
         (server, st2) = createProxyTarget req fresh st1
     in (\<lparr>accessGuard = guard, rateLimiter = limiter, target = server\<rparr>, st2))"

text \<open>A request of an anonymous client that carries no guard.\<close>

definition anonymous_request :: request where
  "anonymous_request =
    \<lparr>req_user = None, req_functionGuard = None, req_resourceGuard = None,
     req_clientRegion = None\<rparr>"

text \<open>A request of the signed-in user \<open>u\<close> that carries no guard.\<close>

definition user_request :: "string \<Rightarrow> request" where
  "user_request u =
    \<lparr>req_user = Some u, req_functionGuard = None, req_resourceGuard = None,
     req_clientRegion = None\<rparr>"

section \<open>Scenarios\<close>

text \<open>Concrete objects and states, built by running the definitions above.\<close>

text \<open>The limiter object of user \<open>alice\<close> under the default configuration.\<close>

definition alice_limiter :: UserRateLimiter where
  "alice_limiter = snd (new_UserRateLimiter default_env ''alice'')"

text \<open>
  An environment that gives the anonymous pool one point per window, a request whose
  function guard denies every operation, and two handlers: one that returns, one that
  fails with an internal error.
\<close>

definition one_point_env :: env where
  "one_point_env = default_env\<lparr>RATE_LIMITER_ANON_POINTS := Some 1\<rparr>"

definition denying_request :: request where
  "denying_request = anonymous_request\<lparr>req_functionGuard := Some (\<lambda>method. False)\<rparr>"

definition ok_handler :: "string \<Rightarrow> jsval list \<Rightarrow> outcome" where
  "ok_handler method args = Returns (JStr ''ok'')"

definition failing_handler :: "string \<Rightarrow> jsval list \<Rightarrow> outcome" where
  "failing_handler method args = Throws (PlainError ''connect ECONNREFUSED 10.0.0.5:3306'')"

text \<open>
  A connection with the denying guard in a fresh process with the one-point pool, its
  first call to \<open>getToken\<close> at time 0 and its second call 59600 ms later.
\<close>

definition probe_conn :: "ProxyFactory \<times> system" where
  "probe_conn = onConnection denying_request ''server-1'' (init_system one_point_env)"

definition probe_first :: "outcome \<times> system" where
  "probe_first = onRequest (fst probe_conn) ok_handler 0 ''getToken'' [] (snd probe_conn)"

definition probe_second :: "outcome \<times> system" where
  "probe_second = onRequest (fst probe_conn) ok_handler 59600 ''getToken'' [] (snd probe_first)"

text \<open>The connection of \<open>alice\<close> in a fresh process, with the state it leaves.\<close>

definition alice_conn :: "ProxyFactory \<times> system" where
  "alice_conn = onConnection (user_request ''alice'') ''server-1'' (init_system default_env)"

text \<open>Three anonymous connections opened one after the other in a fresh process.\<close>

definition conn_1 :: "ProxyFactory \<times> system" where
  "conn_1 = onConnection anonymous_request ''server-1'' (init_system default_env)"

definition conn_2 :: "ProxyFactory \<times> system" where
  "conn_2 = onConnection anonymous_request ''server-2'' (snd conn_1)"

definition conn_3 :: "ProxyFactory \<times> system" where
  "conn_3 = onConnection anonymous_request ''server-3'' (snd conn_2)"

text \<open>
  With the first two connections open, the first asks the limiter for \<open>getTerms\<close>, then
  the second for \<open>getToken\<close>.
\<close>

definition anon_after_first :: system where
  "anon_after_first = snd (consume (rateLimiter (fst conn_1)) 0 ''getTerms'' (snd conn_2))"

definition anon_after_second :: system where
  "anon_after_second = snd (consume (rateLimiter (fst conn_2)) 0 ''getToken'' anon_after_first)"

text \<open>Observer 7 subscribes to the closed event, then one connection is opened.\<close>

definition watched_conn :: "ProxyFactory \<times> system" where
  "watched_conn =
     onConnection anonymous_request ''server-1'' (onConnectionClosed 7 (init_system default_env))"

section \<open>Properties\<close>

subsection \<open>The classification table\<close>

lemma table_all_One: "\<forall>p \<in> set methodTypeMappingObject. snd p = One"
  by (simp add: methodTypeMappingObject_def)

lemma methodTypeMapping_One: "methodTypeMapping m = Some t \<Longrightarrow> t = One"
  using table_all_One by (auto simp: methodTypeMapping_def dest!: map_of_SomeD)

lemma not_isGroupTwoMethod: "\<not> isGroupTwoMethod m"
  using methodTypeMapping_One[of m Two] by (auto simp: isGroupTwoMethod_def isGroupType_def)

lemma not_isGroupThreeMethod: "\<not> isGroupThreeMethod m"
  using methodTypeMapping_One[of m Three] by (auto simp: isGroupThreeMethod_def isGroupType_def)

lemma getToken_One: "methodTypeMapping ''getToken'' = Some One"
  by (simp add: methodTypeMapping_def methodTypeMappingObject_def)

lemma noSuchMethod_absent: "methodTypeMapping ''noSuchMethod'' = None"
  by (simp add: methodTypeMapping_def methodTypeMappingObject_def)

lemma consume_user_cases:
  "consume_user rl now m =
     (if methodTypeMapping m = Some One then
        (fst (consume_memory (rateLimiterOne rl) now (user rl)), [],
         rl\<lparr>rateLimiterOne := snd (consume_memory (rateLimiterOne rl) now (user rl))\<rparr>)
      else
        (fst (consume_memory (rateLimiterThree rl) now (user rl)),
         [(warn, ''method '' @ m @ '' is not configured for a rate limiter, using fallback'')],
         rl\<lparr>rateLimiterThree := snd (consume_memory (rateLimiterThree rl) now (user rl))\<rparr>))"
  using not_isGroupTwoMethod[of m] not_isGroupThreeMethod[of m]
  by (simp add: consume_user_def isGroupOneMethod_def isGroupType_def split_def Let_def)

lemma consume_memory_no_error: "fst (consume_memory rl now k) \<noteq> RejectsError e"
  by (simp add: consume_memory_def Let_def)

text \<open>
  Claim C10. Every operation of the classification table is mapped to tier \<open>One\<close>, whose
  default quota is 5 points per 60 seconds. So \<open>consume\<close> of a user never selects by
  classification the limiter of tier two (it is never touched) nor that of tier three:
  for a name of the table the call is the one on \<open>rateLimiterOne\<close> and
  \<open>rateLimiterThree\<close> stays as it is; \<open>rateLimiterThree\<close> is used only for a name that
  is absent from the table.
\<close>

theorem classification_selects_only_tier_One:
  "(\<forall>t. methodTypeMapping m = Some t \<longrightarrow> t = One)
   \<and> \<not> isGroupTwoMethod m \<and> \<not> isGroupThreeMethod m
   \<and> rateLimiterTwo (snd (snd (consume_user rl now m))) = rateLimiterTwo rl
   \<and> (methodTypeMapping m \<noteq> None \<longrightarrow>
        rateLimiterThree (snd (snd (consume_user rl now m))) = rateLimiterThree rl
        \<and> fst (consume_user rl now m) = fst (consume_memory (rateLimiterOne rl) now (user rl)))
   \<and> (methodTypeMapping m = None \<longrightarrow>
        rateLimiterOne (snd (snd (consume_user rl now m))) = rateLimiterOne rl
        \<and> fst (consume_user rl now m) = fst (consume_memory (rateLimiterThree rl) now (user rl)))
   \<and> points (rateLimiterOne (snd (new_UserRateLimiter default_env u))) = 5
   \<and> duration (rateLimiterOne (snd (new_UserRateLimiter default_env u))) = 60"
proof -
  have one: "\<forall>t. methodTypeMapping m = Some t \<longrightarrow> t = One"
    using methodTypeMapping_One by blast
  have dflt: "points (rateLimiterOne (snd (new_UserRateLimiter default_env u))) = 5
      \<and> duration (rateLimiterOne (snd (new_UserRateLimiter default_env u))) = 60"
    by (simp add: new_UserRateLimiter_def default_env_def number_or_def)
  show ?thesis
  proof (cases "methodTypeMapping m")
    case None
    then show ?thesis
      using one dflt not_isGroupTwoMethod not_isGroupThreeMethod
      by (simp add: consume_user_cases)
  next
    case (Some t)
    then have "methodTypeMapping m = Some One" using one by simp
    then show ?thesis
      using one dflt not_isGroupTwoMethod not_isGroupThreeMethod
      by (simp add: consume_user_cases)
  qed
qed

text \<open>The table name \<open>getToken\<close> and the absent name \<open>noSuchMethod\<close>, for \<open>alice\<close>.\<close>

theorem classification_selects_only_tier_One_witness:
  "methodTypeMapping ''getToken'' = Some One
   \<and> rateLimiterThree (snd (snd (consume_user alice_limiter 0 ''getToken''))) = rateLimiterThree alice_limiter
   \<and> rateLimiterOne (snd (snd (consume_user alice_limiter 0 ''noSuchMethod''))) = rateLimiterOne alice_limiter"
  using classification_selects_only_tier_One [of "''getToken''" alice_limiter 0]
    classification_selects_only_tier_One [of "''noSuchMethod''" alice_limiter 0]
  by (simp add: getToken_One noSuchMethod_absent)

subsection \<open>The fallback for unclassified operations\<close>

text \<open>
  Claim C1, as amended. For every authenticated actor (a user with a limiter object in
  \<open>UserRateLimiter.instances\<close>) and every operation name absent from the table,
  \<open>consume\<close> charges the call to the limiter of tier three, under the user's id as the
  key, leaves the limiters of tiers one and two as they are, and logs one line at level
  \<open>warn\<close>; the result is the one of that limiter, never an \<open>Error\<close>.
\<close>

theorem unclassified_charged_to_tier_Three:
  assumes "instances st u = Some rl" and "methodTypeMapping m = None"
  shows "consume (UserRef u) now m st =
           (fst (consume_memory (rateLimiterThree rl) now (user rl)),
            st\<lparr>logged := logged st @
                  [(warn, ''method '' @ m @ '' is not configured for a rate limiter, using fallback'')],
               instances := (instances st)
                  (u \<mapsto> rl\<lparr>rateLimiterThree :=
                            snd (consume_memory (rateLimiterThree rl) now (user rl))\<rparr>)\<rparr>)
         \<and> (\<forall>e. fst (consume (UserRef u) now m st) \<noteq> RejectsError e)"
  using assms by (simp add: consume_def consume_user_cases consume_memory_no_error)

text \<open>The scenario state holds the limiter object of \<open>alice\<close>.\<close>

lemma alice_instance: "instances (snd alice_conn) ''alice'' = Some alice_limiter"
  by (simp add: alice_conn_def alice_limiter_def onConnection_def createRateLimiter_def user_request_def
     UserRateLimiter_instance_def init_system_def createProxyTarget_def emit_def split_def Let_def)

text \<open>The first call of \<open>alice\<close> to \<open>noSuchMethod\<close>, at time 0.\<close>

theorem unclassified_charged_to_tier_Three_witness:
  "fst (consume (UserRef ''alice'') 0 ''noSuchMethod'' (snd alice_conn))
     = Resolves \<lparr>msBeforeNext = 60000, remainingPoints = 9\<rparr>
   \<and> logged (snd (consume (UserRef ''alice'') 0 ''noSuchMethod'' (snd alice_conn)))
     = [(debug, ''Create GitpodRateLimiter for user alice''),
        (warn, ''method noSuchMethod is not configured for a rate limiter, using fallback'')]"
  using unclassified_charged_to_tier_Three [OF alice_instance noSuchMethod_absent, of 0]
  by (simp add: alice_limiter_def new_UserRateLimiter_def default_env_def number_or_def
      consume_memory_def Let_def alice_conn_def onConnection_def createRateLimiter_def user_request_def
     UserRateLimiter_instance_def init_system_def createProxyTarget_def emit_def split_def)

text \<open>
  Claim C1 as stated fails: under the default configuration the call to \<open>noSuchMethod\<close>
  takes its point from tier three, which has 10 points per window, while tier one has
  the fewest, 5; the counter of tier one is not touched.
\<close>

theorem fallback_tier_not_most_restrictive:
  "methodTypeMapping ''noSuchMethod'' = None
   \<and> storage (rateLimiterThree (snd (snd (consume_user alice_limiter 0 ''noSuchMethod'')))) ''alice''
       = Some \<lparr>remaining = 9, resetAt = 60000\<rparr>
   \<and> storage (rateLimiterOne (snd (snd (consume_user alice_limiter 0 ''noSuchMethod'')))) ''alice'' = None
   \<and> points (rateLimiterThree alice_limiter) = 10
   \<and> points (rateLimiterOne alice_limiter) = 5"
  by (simp add: noSuchMethod_absent consume_user_cases alice_limiter_def new_UserRateLimiter_def
      default_env_def number_or_def consume_memory_def Let_def)

subsection \<open>Evaluating the scenarios\<close>

lemmas scenario_defs =
  one_point_env_def denying_request_def ok_handler_def failing_handler_def probe_conn_def
  probe_first_def probe_second_def alice_conn_def conn_1_def conn_2_def conn_3_def
  anon_after_first_def anon_after_second_def watched_conn_def anonymous_request_def
  user_request_def default_env_def init_system_def

lemmas run_defs =
  onConnection_def createAccessGuard_def createRateLimiter_def createProxyTarget_def emit_def
  AnonymRateLimiter_instance_def UserRateLimiter_instance_def new_AnonymRateLimiter_def
  new_UserRateLimiter_def number_or_def onRequest_def increaseApiCallCounter_def consume_def
  consume_anonym_def consume_memory_def log_line_def AllAccessFunctionGuard_def
  retry_after_def js_or_def Math_round_div_1000_def anonym_user_def close_callback_def
  removeServer_def onConnectionClosed_def onConnectionCreated_def
  increaseApiConnectionCounter_def increaseApiConnectionClosedCounter_def
  currentConnectionCount_def

subsection \<open>The request pipeline\<close>

text \<open>The counter of calls and the log do not touch what the limiter and the handler see.\<close>

lemma increaseApiCallCounter_fields:
  "logged (increaseApiCallCounter m st) = logged st"
  "invoked (increaseApiCallCounter m st) = invoked st"
  "anonym_instance (increaseApiCallCounter m st) = anonym_instance st"
  "instances (increaseApiCallCounter m st) = instances st"
  "servers (increaseApiCallCounter m st) = servers st"
  by (simp_all add: increaseApiCallCounter_def)

lemma log_line_fields:
  "logged (log_line lv t st) = logged st @ [(lv, t)]"
  "invoked (log_line lv t st) = invoked st"
  "anonym_instance (log_line lv t st) = anonym_instance st"
  "instances (log_line lv t st) = instances st"
  "servers (log_line lv t st) = servers st"
  by (simp_all add: log_line_def)

lemma consume_invoked: "invoked (snd (consume ref now m st)) = invoked st"
  by (simp add: consume_def split_def Let_def split: RateLimiter.splits option.splits)

text \<open>The limiter does not read the counter of calls: the two steps commute.\<close>

lemma consume_counter:
  "consume ref now m (increaseApiCallCounter m' st) =
     (fst (consume ref now m st), increaseApiCallCounter m' (snd (consume ref now m st)))"
  by (simp add: consume_def increaseApiCallCounter_def split_def Let_def
      split: RateLimiter.splits option.splits)

text \<open>
  A \<open>consume\<close> of the counter that resolves takes exactly one point of the key's current
  window (a new window when there is none or the old one is over).
\<close>

lemma consume_memory_Resolves:
  assumes "fst (consume_memory rl now k) = Resolves res"
  shows "\<exists>w. storage (snd (consume_memory rl now k)) k = Some w
    \<and> Suc (remaining w) =
        (case storage rl k of
           None \<Rightarrow> points rl
         | Some w0 \<Rightarrow> if resetAt w0 \<le> now then points rl else remaining w0)"
  using assms by (auto simp: consume_memory_def Let_def split: option.splits if_splits)




text \<open>
  A call that the limiter rejects for lack of points ends at that step, whatever the
  guard would say: the guard is not asked and the handler is not invoked.
\<close>

lemma rate_limited_call_stops_before_guard:
  assumes "fst (consume (rateLimiter f) now m st) = RejectsRes res"
  shows "fst (onRequest f handler now m args st)
        = Throws (ResponseError TOO_MANY_REQUESTS ''too many requests''
            (JObj [(''Retry-After'', retry_after (msBeforeNext res))]))
    \<and> invoked (snd (onRequest f handler now m args st)) = invoked st"
  using assms
  by (simp add: onRequest_def consume_counter Let_def increaseApiCallCounter_fields
        log_line_fields consume_invoked)

subsection \<open>The retry-after value\<close>

lemma String_of_nat_nonempty: "String_of_nat n \<noteq> []"
  by (subst String_of_nat.simps) simp

text \<open>
  \<open>String(...)\<close> of a number is never the empty string, so the \<open>|| 1\<close> never applies:
  the value reported is always the string of the rounded seconds.
\<close>

lemma retry_after_string: "retry_after ms = JStr (String_of_nat ((ms + 500) div 1000))"
  by (simp add: retry_after_def js_or_def Math_round_div_1000_def String_of_nat_nonempty
      del: String_of_nat.simps)

text \<open>
  Claim C4 does not hold of the code. The second call of the scenario is rejected 400 ms
  before the refill; 0.4 rounds to 0, and the value reported is the string \<open>0\<close>, not 1.
\<close>

theorem retry_after_zero_reported:
  "retry_after 400 = JStr ''0''
   \<and> fst (consume (rateLimiter (fst probe_conn)) 59600 ''getToken'' (snd probe_first))
       = RejectsRes \<lparr>msBeforeNext = 400, remainingPoints = 0\<rparr>
   \<and> fst probe_second
       = Throws (ResponseError TOO_MANY_REQUESTS ''too many requests''
           (JObj [(''Retry-After'', JStr ''0'')]))"
  by (simp add: scenario_defs run_defs Let_def split_def)

subsection \<open>Handler failures and one-way messages\<close>

text \<open>
  Claim C7, as amended. When the limiter admits the call and the guard grants it, every
  failure of the handler reaches the caller unchanged, whether it is a structured
  rejection or not: \<open>onRequest\<close> wraps nothing. The two kinds differ only in the level of
  the line logged, \<open>info\<close> for a structured rejection and \<open>error\<close> for any other
  failure. The handler was invoked once.
\<close>

theorem handler_failure_rethrown_unchanged:
  assumes "fst (consume (rateLimiter f) now m st) = Resolves res" and "accessGuard f m"
    and "handler m args = Throws e"
  shows "fst (onRequest f handler now m args st) = Throws e
     \<and> fst (last (logged (snd (onRequest f handler now m args st))))
         = (case e of ResponseError c t d \<Rightarrow> info | PlainError t \<Rightarrow> error)
     \<and> invoked (snd (onRequest f handler now m args st))
         = invoked st @ [(uuid (target f), m, args)]"
  using assms
  by (cases e)
     (simp_all add: onRequest_def consume_counter Let_def increaseApiCallCounter_fields
        log_line_fields consume_invoked)

text \<open>The first call of \<open>alice\<close>, with the handler that fails.\<close>

theorem handler_failure_rethrown_unchanged_witness:
  "fst (consume (rateLimiter (fst alice_conn)) 0 ''getToken'' (snd alice_conn))
     = Resolves \<lparr>msBeforeNext = 60000, remainingPoints = 4\<rparr>
   \<and> accessGuard (fst alice_conn) ''getToken''
   \<and> fst (onRequest (fst alice_conn) failing_handler 0 ''getToken'' [] (snd alice_conn))
       = Throws (PlainError ''connect ECONNREFUSED 10.0.0.5:3306'')
   \<and> fst (last (logged (snd (onRequest (fst alice_conn) failing_handler 0 ''getToken'' []
        (snd alice_conn))))) = error"
proof -
  have r: "fst (consume (rateLimiter (fst alice_conn)) 0 ''getToken'' (snd alice_conn))
     = Resolves \<lparr>msBeforeNext = 60000, remainingPoints = 4\<rparr>"
    by (simp add: scenario_defs run_defs getToken_One consume_user_cases Let_def split_def)
  have g: "accessGuard (fst alice_conn) ''getToken''"
    by (simp add: scenario_defs run_defs Let_def split_def)
  have h: "failing_handler ''getToken'' [] = Throws (PlainError ''connect ECONNREFUSED 10.0.0.5:3306'')"
    by (simp add: failing_handler_def)
  show ?thesis
    using handler_failure_rethrown_unchanged
            [where handler = failing_handler and args = "[]", OF r g h] r g
    by simp
qed

text \<open>
  Claim C7 as stated fails: the internal failure of the handler is what \<open>onRequest\<close>
  throws, message and all; it is not a rejection with the internal-error code.
\<close>

theorem internal_failure_not_wrapped:
  "fst (onRequest (fst alice_conn) failing_handler 0 ''getToken'' [] (snd alice_conn))
     = Throws (PlainError ''connect ECONNREFUSED 10.0.0.5:3306'')
   \<and> fst (onRequest (fst alice_conn) failing_handler 0 ''getToken'' [] (snd alice_conn))
     \<noteq> Throws (ResponseError InternalError ''Internal error'' JUndefined)"
  by (simp add: scenario_defs run_defs getToken_One consume_user_cases Let_def split_def)

text \<open>
  Claim C8. Every one-way message is answered with the invalid-request rejection, and
  nothing else happens: the handler is not invoked, the limiters and their counters stay
  as they are, and so does the rest of the state.
\<close>

theorem onNotification_rejects_without_effect:
  "fst (onNotification f m args st)
     = Throws (ResponseError InvalidRequest ''notifications are not supported'' JUndefined)
   \<and> invoked (snd (onNotification f m args st)) = invoked st
   \<and> anonym_instance (snd (onNotification f m args st)) = anonym_instance st
   \<and> instances (snd (onNotification f m args st)) = instances st
   \<and> snd (onNotification f m args st) = st"
  by (simp add: onNotification_def)

subsection \<open>The anonymous pool\<close>

text \<open>
  Claim C2, as amended. All anonymous connections hold the same limiter, the one
  anonymous instance, which a later connection does not replace. Its counters are keyed
  by the operation name, not by the anonymous sentinel: a \<open>consume\<close> for the name \<open>m\<close>,
  from whichever connection, is the call on the counter of key \<open>m\<close> and leaves the
  counter of every other name as it is. So two anonymous connections decrement the same
  counter when they call the same operation, and different counters otherwise.
\<close>

theorem anonymous_limiter_shared_keyed_by_method:
  assumes "req_user r1 = None" and "req_user r2 = None"
  shows "rateLimiter (fst (onConnection r1 u1 st1)) = AnonymRef
    \<and> rateLimiter (fst (onConnection r2 u2 st2)) = AnonymRef
    \<and> anonym_instance (snd (onConnection r1 u1 st1)) \<noteq> None
    \<and> (anonym_instance st1 = Some rl \<longrightarrow>
          anonym_instance (snd (onConnection r1 u1 st1)) = Some rl)
    \<and> (anonym_instance st = Some rl \<longrightarrow>
          consume AnonymRef now m st
            = (fst (consume_memory rl now m),
               st\<lparr>anonym_instance := Some (snd (consume_memory rl now m))\<rparr>)
          \<and> (\<forall>k. k \<noteq> m \<longrightarrow> storage (snd (consume_memory rl now m)) k = storage rl k))"
proof -
  have ref: "rateLimiter (fst (onConnection r u s)) = AnonymRef" if "req_user r = None" for r u s
    using that
    by (simp add: onConnection_def createRateLimiter_def AnonymRateLimiter_instance_def
        split_def Let_def split: option.splits)
  have inst: "anonym_instance (snd (onConnection r1 u1 st1)) =
      (case anonym_instance st1 of
         None \<Rightarrow> Some (new_AnonymRateLimiter (process_env st1))
       | Some x \<Rightarrow> Some x)"
    using assms(1)
    by (simp add: onConnection_def createRateLimiter_def AnonymRateLimiter_instance_def
        createProxyTarget_def emit_def split_def Let_def split: option.splits)
  have other: "storage (snd (consume_memory rl now m)) k = storage rl k" if "k \<noteq> m" for k
    using that by (simp add: consume_memory_def Let_def)
  have call: "consume AnonymRef now m st
      = (fst (consume_memory rl now m),
         st\<lparr>anonym_instance := Some (snd (consume_memory rl now m))\<rparr>)"
    if "anonym_instance st = Some rl"
    using that by (simp add: consume_def consume_anonym_def split_def Let_def)
  show ?thesis
    using ref[OF assms(1)] ref[OF assms(2)] inst other call
    by (simp split: option.splits)
qed

text \<open>The first two anonymous connections of the scenario and a call to \<open>getTerms\<close>.\<close>

theorem anonymous_limiter_shared_keyed_by_method_witness:
  "req_user anonymous_request = None
   \<and> rateLimiter (fst conn_1) = rateLimiter (fst conn_2)
   \<and> anonym_instance (snd conn_2) = anonym_instance (snd conn_1)
   \<and> anonym_instance (snd conn_1) = Some (new_AnonymRateLimiter default_env)
   \<and> fst (consume AnonymRef 0 ''getTerms'' (snd conn_2))
       = Resolves \<lparr>msBeforeNext = 60000, remainingPoints = 9\<rparr>"
proof -
  have u: "req_user anonymous_request = None"
    by (simp add: anonymous_request_def)
  have i1: "anonym_instance (snd conn_1) = Some (new_AnonymRateLimiter default_env)"
    by (simp add: scenario_defs run_defs Let_def split_def)
  have i2: "anonym_instance (snd conn_2) = Some (new_AnonymRateLimiter default_env)"
    using anonymous_limiter_shared_keyed_by_method
            [OF u u, of "''server-2''" "snd conn_1" "''server-1''" "init_system default_env"
               "new_AnonymRateLimiter default_env"] i1
    by (simp add: conn_2_def)
  have c: "fst (consume_memory (new_AnonymRateLimiter default_env) 0 ''getTerms'')
       = Resolves \<lparr>msBeforeNext = 60000, remainingPoints = 9\<rparr>"
    by (simp add: consume_memory_def new_AnonymRateLimiter_def default_env_def number_or_def
        Let_def)
  show ?thesis
    using anonymous_limiter_shared_keyed_by_method
            [OF u u, of "''server-1''" "init_system default_env" "''server-2''" "snd conn_1"
               "new_AnonymRateLimiter default_env" "snd conn_2" 0 "''getTerms''"]
          u i1 i2 c
    by (simp add: conn_1_def conn_2_def)
qed

text \<open>
  Claim C2 as stated fails: the first connection calls \<open>getTerms\<close> and the second
  \<open>getToken\<close>; each call takes the first point of a counter of its own (9 of 10 are left
  in both), and no counter is kept under the anonymous sentinel.
\<close>

theorem anonymous_methods_use_distinct_counters:
  "rateLimiter (fst conn_1) = AnonymRef \<and> rateLimiter (fst conn_2) = AnonymRef
   \<and> anonym_instance anon_after_second \<noteq> None
   \<and> storage (the (anonym_instance anon_after_second)) ''getTerms''
       = Some \<lparr>remaining = 9, resetAt = 60000\<rparr>
   \<and> storage (the (anonym_instance anon_after_second)) ''getToken''
       = Some \<lparr>remaining = 9, resetAt = 60000\<rparr>
   \<and> storage (the (anonym_instance anon_after_second)) anonym_user = None"
  by (simp add: scenario_defs run_defs Let_def split_def)

subsection \<open>The live connections and their observers\<close>

lemma findIndex_None: "findIndex P xs = None \<longleftrightarrow> (\<forall>x \<in> set xs. \<not> P x)"
  by (induction xs) (auto split: option.splits)

lemma findIndex_Some:
  "findIndex P xs = Some i \<Longrightarrow> i < length xs \<and> P (xs ! i) \<and> (\<forall>x \<in> set (take i xs). \<not> P x)"
proof (induction xs arbitrary: i)
  case Nil
  then show ?case by simp
next
  case (Cons a xs)
  show ?case
  proof (cases "P a")
    case True
    with Cons.prems show ?thesis by simp
  next
    case False
    with Cons.prems obtain j where j: "findIndex P xs = Some j" "i = Suc j"
      by (auto split: option.splits)
    with Cons.IH[of j] False show ?thesis by simp
  qed
qed

lemma removeServer_absent: "\<forall>x \<in> set (servers (removeServer s st)). uuid x \<noteq> uuid s"
  by (auto simp: removeServer_def findIndex_None split: option.splits dest!: findIndex_Some)

text \<open>
  Claim C5 does not hold of the code. With three connections open, the close of the
  second removes the third from \<open>servers\<close> as well: one connection is counted as live
  where two are.
\<close>

theorem removeServer_drops_later_connections:
  "map uuid (servers (snd conn_3)) = [''server-1'', ''server-2'', ''server-3'']
   \<and> uuid (target (fst conn_2)) = ''server-2''
   \<and> map uuid (servers (close_callback (target (fst conn_2)) (snd conn_3))) = [''server-1'']
   \<and> currentConnectionCount (close_callback (target (fst conn_2)) (snd conn_3)) = 1"
  by (simp add: scenario_defs run_defs Let_def split_def)

text \<open>
  Claim C6, as amended. When the close signal of a connection is delivered twice, the
  connection is absent from the live set after the first signal and the second signal
  leaves the live set as it is; every close signal sends one closed notification to each
  observer subscribed, so two signals send two.
\<close>

theorem double_close_notifies_twice:
  "(\<forall>x \<in> set (servers (close_callback s st)). uuid x \<noteq> uuid s)
   \<and> servers (close_callback s (close_callback s st)) = servers (close_callback s st)
   \<and> notified (close_callback s (close_callback s st))
       = notified st
         @ map (\<lambda>l. (l, EVENT_CONNECTION_CLOSED, uuid s)) (listeners st EVENT_CONNECTION_CLOSED)
         @ map (\<lambda>l. (l, EVENT_CONNECTION_CLOSED, uuid s)) (listeners st EVENT_CONNECTION_CLOSED)"
proof -
  have srv: "servers (close_callback s st') = servers (removeServer s st')" for st'
    by (simp add: close_callback_def emit_def Let_def removeServer_def split: option.splits)
  have a: "\<forall>x \<in> set (servers (close_callback s st)). uuid x \<noteq> uuid s"
    unfolding srv by (rule removeServer_absent)
  have "findIndex (\<lambda>x. uuid x = uuid s) (servers (close_callback s st)) = None"
    using a by (simp add: findIndex_None)
  then have b: "servers (close_callback s (close_callback s st)) = servers (close_callback s st)"
    unfolding srv[of "close_callback s st"] by (simp add: removeServer_def)
  have lst: "listeners (close_callback s st) = listeners st"
    by (simp add: close_callback_def emit_def Let_def removeServer_def split: option.splits)
  have ntf: "notified (close_callback s st')
      = notified st'
        @ map (\<lambda>l. (l, EVENT_CONNECTION_CLOSED, uuid s)) (listeners st' EVENT_CONNECTION_CLOSED)"
    for st'
    by (simp add: close_callback_def emit_def Let_def removeServer_def split: option.splits)
  have c: "notified (close_callback s (close_callback s st))
       = notified st
         @ map (\<lambda>l. (l, EVENT_CONNECTION_CLOSED, uuid s)) (listeners st EVENT_CONNECTION_CLOSED)
         @ map (\<lambda>l. (l, EVENT_CONNECTION_CLOSED, uuid s)) (listeners st EVENT_CONNECTION_CLOSED)"
    by (simp add: ntf[of "close_callback s st"] ntf[of st] lst)
  from a b c show ?thesis by blast
qed

text \<open>The watched connection, closed twice.\<close>

theorem double_close_notifies_twice_witness:
  "servers (snd watched_conn) = [target (fst watched_conn)]
   \<and> servers (close_callback (target (fst watched_conn)) (snd watched_conn)) = []
   \<and> servers (close_callback (target (fst watched_conn))
        (close_callback (target (fst watched_conn)) (snd watched_conn))) = []
   \<and> length (notified (close_callback (target (fst watched_conn))
        (close_callback (target (fst watched_conn)) (snd watched_conn)))) = 2"
proof -
  have s: "servers (snd watched_conn) = [target (fst watched_conn)]"
    by (simp add: scenario_defs run_defs Let_def split_def)
  have e: "servers (close_callback (target (fst watched_conn)) (snd watched_conn)) = []"
    by (simp add: scenario_defs run_defs Let_def split_def)
  have n: "notified (snd watched_conn) = []"
    by (simp add: scenario_defs run_defs Let_def split_def)
  have l: "listeners (snd watched_conn) EVENT_CONNECTION_CLOSED = [7]"
    by (simp add: scenario_defs run_defs Let_def split_def)
  show ?thesis
    using double_close_notifies_twice [of "target (fst watched_conn)" "snd watched_conn"] s e n l
    by simp
qed

text \<open>
  Claim C6 as stated fails: the one observer of the watched connection is told twice that
  the connection is closed when the close signal comes twice.
\<close>

theorem double_close_two_notifications:
  "notified (close_callback (target (fst watched_conn))
      (close_callback (target (fst watched_conn)) (snd watched_conn)))
     = [(7, EVENT_CONNECTION_CLOSED, ''server-1''), (7, EVENT_CONNECTION_CLOSED, ''server-1'')]"
  by (simp add: scenario_defs run_defs Let_def split_def)

text \<open>
  Claim C9 does not hold of the code. Three connections are opened and one is closed, and
  both counters stay at 0; one observer subscribes to an event, and the counter of that
  event's name goes up by one.
\<close>

theorem connection_counters_count_subscriptions:
  "apiConnectionCounter (init_system default_env) = 0
   \<and> apiConnectionCounter (snd conn_3) = 0
   \<and> apiConnectionClosedCounter (close_callback (target (fst conn_2)) (snd conn_3)) = 0
   \<and> apiConnectionCounter (onConnectionCreated 7 (init_system default_env)) = 1
   \<and> apiConnectionClosedCounter (onConnectionClosed 7 (init_system default_env)) = 1"
  by (simp add: scenario_defs run_defs Let_def split_def)

end
